theory Spec2Isabelle
  imports Main "HOL-Library.Sublist"
begin

section \<open>The PRP runner: a shallow embedding of \<^verbatim>\<open>PRPs/scripts/prp_runner.py\<close>\<close>

text \<open>
  The script resolves a file location from two optional command-line values, reads that
  file, puts a fixed header in front of its text and prints the result, bare (headless) or
  between banners (interactive). The embedding follows the script function by function:
  \<^verbatim>\<open>resolve_prp_path\<close>, \<^verbatim>\<open>load_prp_content\<close>, \<^verbatim>\<open>run_cursor_model\<close> and \<^verbatim>\<open>main\<close>.

  Conventions of the model.
  \<^item> A Python \<^verbatim>\<open>str\<close> is a \<^typ>\<open>string\<close>; text outside ASCII is carried in its UTF-8
    form, which is also the encoding the script reads with.
  \<^item> An exception is a value of type \<open>exn\<close>; a function that may raise returns
    \<open>exn + 'a\<close>, with \<open>Inl\<close> for the raised exception.
  \<^item> The texts written to the two output streams and the list of file-system calls made
    so far form the record \<open>world\<close>, passed through every function that prints or touches
    the file system. A function that raises after it has printed returns the exception
    together with the state it has reached.
  \<^item> The file system is read only: the script never writes a file.
  \<^item> A write to \<^verbatim>\<open>sys.stdout\<close> may raise (a text the stream's encoding cannot encode, a closed
    pipe); which writes do is part of the environment. \<^verbatim>\<open>sys.stderr\<close> escapes what it cannot
    encode, and writes to it are taken to succeed.
  \<^item> The command line is the sequence of option occurrences that \<^verbatim>\<open>argparse\<close> reads from it.
\<close>

subsection \<open>Paths: the part of \<^verbatim>\<open>pathlib\<close> the script uses (POSIX flavour)\<close>

text \<open>
  A path object is its root (\<^verbatim>\<open>''\<close>, \<^verbatim>\<open>'/'\<close> or \<^verbatim>\<open>'//'\<close>) and the list of its components.
  Two path objects are equal in Python exactly when both agree, which is the equality of
  the datatype.
\<close>

datatype path = PurePath (root: string) (tail: "string list")

text \<open>\<^verbatim>\<open>posixpath.splitroot\<close>: exactly two leading slashes are kept as a root of their own.\<close>

definition splitroot :: "string \<Rightarrow> string \<times> string" where
  "splitroot p =
     (if take 1 p \<noteq> ''/'' then ([], p)
      else if take 1 (drop 1 p) \<noteq> ''/'' \<or> take 1 (drop 2 p) = ''/'' then (''/'', drop 1 p)
      else (take 2 p, drop 2 p))"

text \<open>\<^verbatim>\<open>str.split(sep)\<close> for a one-character separator: never empty, \<^verbatim>\<open>''.split('/') == ['']\<close>.\<close>

fun split_sep :: "char \<Rightarrow> string \<Rightarrow> string list" where
  "split_sep c [] = [[]]"
| "split_sep c (x # xs) =
     (if x = c then [] # split_sep c xs
      else (case split_sep c xs of
              [] \<Rightarrow> [[x]]
            | w # ws \<Rightarrow> (x # w) # ws))"

text \<open>\<^verbatim>\<open>sep.join(parts)\<close>.\<close>

fun sep_join :: "string \<Rightarrow> string list \<Rightarrow> string" where
  "sep_join s [] = []"
| "sep_join s [x] = x"
| "sep_join s (x # y # ys) = x @ s @ sep_join s (y # ys)"

text \<open>
  \<^verbatim>\<open>PurePath._parse_path\<close>: split the root off, split the rest at \<^verbatim>\<open>/\<close>, and drop empty
  components and \<^verbatim>\<open>.\<close> components. \<^verbatim>\<open>Path(s)\<close> for a string \<^verbatim>\<open>s\<close> is this parse.
\<close>

definition Path :: "string \<Rightarrow> path" where
  "Path s =
     (if s = [] then PurePath [] []
      else (case splitroot s of
              (r, rel) \<Rightarrow> PurePath r (filter (\<lambda>x. x \<noteq> [] \<and> x \<noteq> ''.'') (split_sep CHR ''/'' rel))))"

text \<open>\<^verbatim>\<open>PurePath._format_parsed_parts\<close>, and \<^verbatim>\<open>str(path)\<close>, which shows the empty path as \<^verbatim>\<open>.\<close>\<close>

definition format_parsed_parts :: "path \<Rightarrow> string" where
  "format_parsed_parts p = root p @ sep_join ''/'' (tail p)"

definition path_str :: "path \<Rightarrow> string" where
  "path_str p = (if format_parsed_parts p = [] then ''.'' else format_parsed_parts p)"

text \<open>\<^verbatim>\<open>posixpath.join(a, b)\<close>: an absolute second argument discards the first.\<close>

definition posixpath_join :: "string \<Rightarrow> string \<Rightarrow> string" where
  "posixpath_join a b =
     (if take 1 b = ''/'' then b
      else if a = [] \<or> last a = CHR ''/'' then a @ b
      else a @ ''/'' @ b)"

text \<open>\<^verbatim>\<open>path / key\<close> for a string key: join the two texts, then parse.\<close>

definition truediv :: "path \<Rightarrow> string \<Rightarrow> path" where
  "truediv p key = Path (posixpath_join (format_parsed_parts p) key)"

text \<open>\<^verbatim>\<open>path.parent\<close>: drop the last component; a path without components is its own parent.\<close>

definition parent :: "path \<Rightarrow> path" where
  "parent p = (if tail p = [] then p else PurePath (root p) (butlast (tail p)))"

subsection \<open>The environment and the observable state\<close>

text \<open>
  What the file system holds at a path: a file that \<^verbatim>\<open>read_text(encoding="utf-8")\<close> can
  open and decode, with its stored content; something that exists but that \<^verbatim>\<open>read_text\<close>
  cannot read (a directory, no permission, bytes that are not UTF-8), with the text of the
  exception; or an entry on which \<^verbatim>\<open>exists()\<close> itself raises, with the text of the exception.
  The file system is an association list from paths to such entries; at a path that is not
  listed there is nothing, and \<^verbatim>\<open>exists()\<close> is false.
\<close>

datatype node = Regular string | ReadFails string | StatFails string

datatype fs_call = Call_exists path | Call_read_text path

text \<open>
  The exceptions of a run, each with its message: the two the script raises itself, and
  any other exception that a library call raises.
\<close>

datatype exn = FileNotFoundError string | ValueError string | OtherException string

text \<open>\<^verbatim>\<open>str(e)\<close>: the message.\<close>

fun exn_str :: "exn \<Rightarrow> string" where
  "exn_str (FileNotFoundError m) = m"
| "exn_str (ValueError m) = m"
| "exn_str (OtherException m) = m"

text \<open>
  The environment of one run: the text of the real path of the script file, from which
  \<^verbatim>\<open>Path(__file__).resolve()\<close> makes its path object; the file system; the texts that
  \<^verbatim>\<open>sys.stdout\<close> refuses to write in this run, each with the message of the exception it
  raises (the empty list for a stream that accepts everything); and the program name, the
  usage text (\<^verbatim>\<open>format_usage()\<close>) and the help text (\<^verbatim>\<open>format_help()\<close>) of the argument parser.
\<close>

record env =
  realpath_file :: string
  fs :: "(path \<times> node) list"
  stdout_faults :: "(string \<times> string) list"
  prog :: string
  usage :: string
  help_text :: string

record world =
  stdout :: string
  stderr :: string
  fs_calls :: "fs_call list"

text \<open>
  The command line as the parser of \<^verbatim>\<open>main\<close> reads it, one element for each occurrence:
  \<^verbatim>\<open>--prp\<close> with its value, \<^verbatim>\<open>--prp-path\<close> with its value, \<^verbatim>\<open>--interactive\<close>, the help option
  (\<^verbatim>\<open>-h\<close> or \<^verbatim>\<open>--help\<close>, which \<^verbatim>\<open>ArgumentParser\<close> adds by default), \<^verbatim>\<open>--prp\<close> or
  \<^verbatim>\<open>--prp-path\<close> with no value after it, and an argument that the parser does not know.
  Abbreviated and \<^verbatim>\<open>--option=value\<close> spellings count as the option they stand for.
\<close>

datatype arg =
    Prp string
  | Prp_path string
  | Interactive
  | Help
  | Prp_no_value
  | Prp_path_no_value
  | Unrecognized string

text \<open>The namespace \<^verbatim>\<open>parse_args\<close> returns; an option that was not given is \<^verbatim>\<open>None\<close>.\<close>

record namespace =
  prp :: "string option"
  prp_path :: "string option"
  interactive :: bool

text \<open>Truth value of an optional string: \<^verbatim>\<open>None\<close> and the empty string are false.\<close>

fun truthy :: "string option \<Rightarrow> bool" where
  "truthy None = False"
| "truthy (Some s) = (s \<noteq> [])"

subsection \<open>Module constants\<close>

text \<open>\<^verbatim>\<open>ROOT = Path(__file__).resolve().parent.parent\<close>\<close>

definition ROOT :: "env \<Rightarrow> path" where
  "ROOT e = parent (parent (Path (realpath_file e)))"

definition META_HEADER :: string where
  "META_HEADER =
     ''Ingest and understand the Product Requirement Prompt (PRP) below in detail.\<newline>'' @
     ''\<newline>'' @
     ''    # WORKFLOW GUIDANCE:\<newline>'' @
     ''\<newline>'' @
     ''    ## Planning Phase\<newline>'' @
     ''    - Think hard before you code. Create a comprehensive plan addressing all requirements.\<newline>'' @
     ''    - Break down complex tasks into smaller, manageable steps.\<newline>'' @
     ''    - Use the TodoWrite tool to create and track your implementation plan.\<newline>'' @
     ''    - Identify implementation patterns from existing code to follow.\<newline>'' @
     ''\<newline>'' @
     ''    ## Implementation Phase\<newline>'' @
     ''    - Follow code conventions and patterns found in existing files.\<newline>'' @
     ''    - Implement one component at a time and verify it works correctly.\<newline>'' @
     ''    - Write clear, maintainable code with appropriate comments.\<newline>'' @
     ''    - Consider error handling, edge cases, and potential security issues.\<newline>'' @
     ''    - Use type hints to ensure type safety.\<newline>'' @
     ''\<newline>'' @
     ''    ## Validation Phase\<newline>'' @
     ''    - Run all validation commands specified in the PRP.\<newline>'' @
     ''    - Test the implementation thoroughly.\<newline>'' @
     ''    - Ensure all requirements are met before considering the task complete.\<newline>'' @
     ''    - Fix any issues found during validation.\<newline>'' @
     ''\<newline>'' @
     ''    ---\<newline>'' @
     ''\<newline>'' @
     ''    Now, implement the PRP below:\<newline>'' @
     ''\<newline>'' @
     ''    ''"

subsection \<open>The functions of the script\<close>

text \<open>
  Reading in text mode translates line endings: \<^verbatim>\<open>read_text\<close> opens the file with the default
  \<^verbatim>\<open>newline=None\<close>, so every \<^verbatim>\<open>\r\n\<close> and every other \<^verbatim>\<open>\r\<close> arrives as \<^verbatim>\<open>\n\<close>.
\<close>

fun universal_newlines :: "string \<Rightarrow> string" where
  "universal_newlines [] = []"
| "universal_newlines [c] = [if c = CHR 0x0D then CHR 0x0A else c]"
| "universal_newlines (c # d # cs) =
     (if c = CHR 0x0D \<and> d = CHR 0x0A then CHR 0x0A # universal_newlines cs
      else if c = CHR 0x0D then CHR 0x0A # universal_newlines (d # cs)
      else c # universal_newlines (d # cs))"

definition load_prp_content :: "env \<Rightarrow> path \<Rightarrow> world \<Rightarrow> (exn + string) \<times> world" where
  "load_prp_content e prp_path_v w =
     (let w1 = w\<lparr>fs_calls := fs_calls w @ [Call_exists prp_path_v]\<rparr>;
          w2 = w1\<lparr>fs_calls := fs_calls w1 @ [Call_read_text prp_path_v]\<rparr>
      in case map_of (fs e) prp_path_v of
           Some (StatFails m) \<Rightarrow> (Inl (OtherException m), w1)
         | None \<Rightarrow> (Inl (FileNotFoundError (''PRP file not found: '' @ path_str prp_path_v)), w1)
         | Some (ReadFails m) \<Rightarrow> (Inl (OtherException m), w2)
         | Some (Regular s) \<Rightarrow> (Inr (META_HEADER @ universal_newlines s), w2))"

text \<open>
  \<^verbatim>\<open>print(s)\<close>: the text and one newline are appended to standard output, unless the stream
  refuses the text; then the call raises and nothing of it is written. The result is the
  exception, if one was raised, and the state reached.
\<close>

definition print :: "env \<Rightarrow> string \<Rightarrow> world \<Rightarrow> exn option \<times> world" where
  "print e s w =
     (case map_of (stdout_faults e) s of
        Some m \<Rightarrow> (Some (OtherException m), w)
      | None \<Rightarrow> (None, w\<lparr>stdout := stdout w @ s @ ''\<newline>''\<rparr>))"

text \<open>\<^verbatim>\<open>print(s, file=sys.stderr)\<close>: the text and one newline.\<close>

definition print_stderr :: "string \<Rightarrow> world \<Rightarrow> world" where
  "print_stderr s w = w\<lparr>stderr := stderr w @ s @ ''\<newline>''\<rparr>"

text \<open>
  A sequence of \<^verbatim>\<open>print\<close> statements: they run in order, and the first one that raises ends
  the sequence, with what the earlier ones have written left on standard output.
\<close>

fun print_all :: "env \<Rightarrow> string list \<Rightarrow> world \<Rightarrow> exn option \<times> world" where
  "print_all e [] w = (None, w)"
| "print_all e (s # ss) w =
     (case print e s w of
        (Some ex, w1) \<Rightarrow> (Some ex, w1)
      | (None, w1) \<Rightarrow> print_all e ss w1)"

definition run_cursor_model :: "env \<Rightarrow> string \<Rightarrow> bool \<Rightarrow> world \<Rightarrow> exn option \<times> world" where
  "run_cursor_model e prompt interactive_v w =
     (if interactive_v then
        print_all e
          [''=== PRP LOADED FOR CURSOR ==='',
           prompt,
           ''\<newline>=== INSTRUCTIONS ==='',
           ''1. Copy the PRP content above'',
           ''2. Paste it into Cursor'',
           ''3. Follow the workflow guidance to implement the PRP'',
           ''4. Use the validation commands to verify your implementation''] w
      else print e prompt w)"

definition resolve_prp_path :: "env \<Rightarrow> string option \<Rightarrow> string option \<Rightarrow> exn + path" where
  "resolve_prp_path e prp_arg prp_path_arg =
     (if truthy prp_path_arg then Inr (Path (the prp_path_arg))
      else if truthy prp_arg then Inr (truediv (ROOT e) (the prp_arg @ ''.md''))
      else Inl (ValueError ''Must provide either --prp or --prp-path''))"

text \<open>
  \<^verbatim>\<open>parser.error(message)\<close>: the usage text and the message go to the error stream, and the
  process exits with status 2.
\<close>

definition parser_error :: "env \<Rightarrow> string \<Rightarrow> world \<Rightarrow> nat \<times> world" where
  "parser_error e message w =
     (2, w\<lparr>stderr := stderr w @ usage e @ prog e @ '': error: '' @ message @ ''\<newline>''\<rparr>)"

text \<open>The handler of \<^verbatim>\<open>main\<close>: \<^verbatim>\<open>print(f"Error: {e}", file=sys.stderr); sys.exit(1)\<close>.\<close>

definition on_exception :: "exn \<Rightarrow> world \<Rightarrow> nat \<times> world" where
  "on_exception ex w = (1, print_stderr (''Error: '' @ exn_str ex) w)"

text \<open>
  \<^verbatim>\<open>parser.parse_args()\<close> for the parser that \<^verbatim>\<open>main\<close> builds. The occurrences are taken
  from left to right. A value is stored, a later one replacing an earlier one; the flag
  sets \<^verbatim>\<open>interactive\<close>; the help option prints the help text to standard output and exits
  with status 0 at once; an option without its value is an error at once; arguments the
  parser does not know are collected and are an error at the end. The result is either the
  exit the parser takes (\<open>Inl\<close>, with the status and the state) or the namespace.
\<close>

fun parse_known_args ::
  "env \<Rightarrow> arg list \<Rightarrow> namespace \<Rightarrow> string list \<Rightarrow> world \<Rightarrow> (nat \<times> world) + (namespace \<times> string list)"
where
  "parse_known_args e [] ns extras w = Inr (ns, extras)"
| "parse_known_args e (Prp v # xs) ns extras w =
     parse_known_args e xs (ns\<lparr>prp := Some v\<rparr>) extras w"
| "parse_known_args e (Prp_path v # xs) ns extras w =
     parse_known_args e xs (ns\<lparr>prp_path := Some v\<rparr>) extras w"
| "parse_known_args e (Interactive # xs) ns extras w =
     parse_known_args e xs (ns\<lparr>interactive := True\<rparr>) extras w"
| "parse_known_args e (Help # xs) ns extras w =
     Inl (0, w\<lparr>stdout := stdout w @ help_text e\<rparr>)"
| "parse_known_args e (Prp_no_value # xs) ns extras w =
     Inl (parser_error e ''argument --prp: expected one argument'' w)"
| "parse_known_args e (Prp_path_no_value # xs) ns extras w =
     Inl (parser_error e ''argument --prp-path: expected one argument'' w)"
| "parse_known_args e (Unrecognized s # xs) ns extras w =
     parse_known_args e xs ns (extras @ [s]) w"

definition parse_args :: "env \<Rightarrow> arg list \<Rightarrow> world \<Rightarrow> (nat \<times> world) + namespace" where
  "parse_args e argv w =
     (case parse_known_args e argv \<lparr>prp = None, prp_path = None, interactive = False\<rparr> [] w of
        Inl ex \<Rightarrow> Inl ex
      | Inr (ns, extras) \<Rightarrow>
          if extras \<noteq> []
          then Inl (parser_error e (''unrecognized arguments: '' @ sep_join '' '' extras) w)
          else Inr ns)"

text \<open>
  \<^verbatim>\<open>main\<close>. The result is the exit status of the process and the final state; returning
  from \<^verbatim>\<open>main\<close> normally is exit status 0. Every exception raised inside the \<^verbatim>\<open>try\<close> block,
  by the resolver, the loader or the presenter, reaches the handler.
\<close>

definition main :: "env \<Rightarrow> arg list \<Rightarrow> world \<Rightarrow> nat \<times> world" where
  "main e argv w =
     (case parse_args e argv w of
        Inl ex \<Rightarrow> ex
      | Inr a \<Rightarrow>
          if \<not> truthy (prp a) \<and> \<not> truthy (prp_path a)
          then parser_error e ''Must provide either --prp or --prp-path'' w
          else (case resolve_prp_path e (prp a) (prp_path a) of
                  Inl ex \<Rightarrow> on_exception ex w
                | Inr p \<Rightarrow>
                    (case load_prp_content e p w of
                       (Inl ex, w1) \<Rightarrow> on_exception ex w1
                     | (Inr prompt, w1) \<Rightarrow>
                         (case run_cursor_model e prompt (interactive a) w1 of
                            (Some ex, w2) \<Rightarrow> on_exception ex w2
                          | (None, w2) \<Rightarrow> (0, w2)))))"

section \<open>Auxiliary facts\<close>

subsection \<open>What a sequence of prints writes\<close>

lemma print_None: "print e s w = (None, w') \<Longrightarrow> w' = w\<lparr>stdout := stdout w @ s @ ''\<newline>''\<rparr>"
  by (auto simp: print_def split: option.splits)

lemma print_Some: "print e s w = (Some ex, w') \<Longrightarrow> w' = w"
  by (auto simp: print_def split: option.splits)



lemma print_all_Some:
  "print_all e ss w = (Some ex, w') \<Longrightarrow>
     \<exists>written. w' = w\<lparr>stdout := stdout w @ written\<rparr> \<and>
               strict_prefix written (concat (map (\<lambda>s. s @ ''\<newline>'') ss))"
proof (induction ss arbitrary: w)
  case Nil
  then show ?case by simp
next
  case (Cons s ss)
  show ?case
  proof (cases "print e s w")
    case (Pair r w1)
    show ?thesis
    proof (cases r)
      case None
      with Pair Cons.prems have rest: "print_all e ss w1 = (Some ex, w')" by simp
      from Pair None have w1: "w1 = w\<lparr>stdout := stdout w @ s @ ''\<newline>''\<rparr>"
        by (simp add: print_None)
      from Cons.IH [OF rest] obtain written where
        "w' = w1\<lparr>stdout := stdout w1 @ written\<rparr>"
        "strict_prefix written (concat (map (\<lambda>s. s @ ''\<newline>'') ss))"
        by blast
      with w1 have "w' = w\<lparr>stdout := stdout w @ (s @ ''\<newline>'') @ written\<rparr> \<and>
          strict_prefix ((s @ ''\<newline>'') @ written) (concat (map (\<lambda>s. s @ ''\<newline>'') (s # ss)))"
        by (simp add: strict_prefix_def)
      then show ?thesis by blast
    next
      case (Some ex')
      with Pair Cons.prems have "w' = w1" by simp
      with Pair Some have "w' = w\<lparr>stdout := stdout w @ []\<rparr>"
        by (simp add: print_Some)
      moreover have "strict_prefix [] (concat (map (\<lambda>s. s @ ''\<newline>'') (s # ss)))"
        by (simp add: strict_prefix_def)
      ultimately show ?thesis by blast
    qed
  qed
qed


subsection \<open>What the presenter writes\<close>



lemma run_interactive_Some:
  "run_cursor_model e prompt True w = (Some ex, w') \<Longrightarrow>
     \<exists>written. w' = w\<lparr>stdout := stdout w @ written\<rparr> \<and>
       strict_prefix written (''=== PRP LOADED FOR CURSOR ===\<newline>'' @ prompt @
          ''\<newline>\<newline>=== INSTRUCTIONS ===\<newline>'' @
          ''1. Copy the PRP content above\<newline>'' @
          ''2. Paste it into Cursor\<newline>'' @
          ''3. Follow the workflow guidance to implement the PRP\<newline>'' @
          ''4. Use the validation commands to verify your implementation\<newline>'')"
proof -
  assume "run_cursor_model e prompt True w = (Some ex, w')"
  then have "print_all e
          [''=== PRP LOADED FOR CURSOR ==='', prompt, ''\<newline>=== INSTRUCTIONS ==='',
           ''1. Copy the PRP content above'', ''2. Paste it into Cursor'',
           ''3. Follow the workflow guidance to implement the PRP'',
           ''4. Use the validation commands to verify your implementation''] w = (Some ex, w')"
    by (simp add: run_cursor_model_def)
  from print_all_Some [OF this] show ?thesis by simp
qed


subsection \<open>Line endings\<close>

lemma universal_newlines_no_cr: "CHR 0x0D \<notin> set s \<Longrightarrow> universal_newlines s = s"
  by (induction s rule: universal_newlines.induct) auto

subsection \<open>The parser and the resolver\<close>

lemma parse_known_args_help_free:
  "Help \<notin> set argv \<Longrightarrow> parse_known_args e argv ns extras w = Inl x \<Longrightarrow>
     \<exists>msg. x = parser_error e msg w"
  by (induction e argv ns extras w rule: parse_known_args.induct) auto

lemma parse_args_help_free:
  "Help \<notin> set argv \<Longrightarrow> parse_args e argv w = Inl x \<Longrightarrow> \<exists>msg. x = parser_error e msg w"
  by (auto simp: parse_args_def split: sum.splits prod.splits if_splits
           dest: parse_known_args_help_free)

lemma parse_known_args_no_values:
  "set argv \<inter> range Prp = {} \<Longrightarrow> set argv \<inter> range Prp_path = {} \<Longrightarrow>
   parse_known_args e argv ns extras w = Inr (ns', extras') \<Longrightarrow>
     prp ns' = prp ns \<and> prp_path ns' = prp_path ns"
  by (induction e argv ns extras w rule: parse_known_args.induct) auto

lemma parse_args_no_values:
  "set argv \<inter> range Prp = {} \<Longrightarrow> set argv \<inter> range Prp_path = {} \<Longrightarrow>
   parse_args e argv w = Inr a \<Longrightarrow> prp a = None \<and> prp_path a = None"
  by (auto simp: parse_args_def split: sum.splits prod.splits if_splits
           dest: parse_known_args_no_values)

lemma resolve_truthy: "resolve_prp_path e k pp = Inr p \<Longrightarrow> truthy k \<or> truthy pp"
  by (auto simp: resolve_prp_path_def split: if_splits)

lemma resolve_fails_falsy: "resolve_prp_path e k pp = Inl ex \<Longrightarrow> \<not> truthy k \<and> \<not> truthy pp"
  by (auto simp: resolve_prp_path_def split: if_splits)

subsection \<open>Components of parsed paths\<close>

text \<open>
  Every component of a parsed path is non-empty and free of the separator, and taking the
  parent keeps that. Hence the text of a path with at least one component does not end in
  a slash, and joining a relative key to it inserts exactly one.
\<close>

lemma split_sep_nonempty: "split_sep c s \<noteq> []"
  by (induction s) (auto split: list.splits)

lemma split_sep_free: "w \<in> set (split_sep c s) \<Longrightarrow> c \<notin> set w"
proof (induction s arbitrary: w)
  case Nil
  then show ?case by simp
next
  case (Cons x xs)
  show ?case
  proof (cases "x = c")
    case True
    with Cons show ?thesis by auto
  next
    case False
    obtain v vs where vs: "split_sep c xs = v # vs"
      using split_sep_nonempty [of c xs] by (cases "split_sep c xs") auto
    with Cons.prems False have "w = x # v \<or> w \<in> set vs" by simp
    with Cons.IH [of v] Cons.IH [of w] vs False show ?thesis by auto
  qed
qed

lemma Path_components: "w \<in> set (tail (Path s)) \<Longrightarrow> w \<noteq> [] \<and> CHR ''/'' \<notin> set w"
  by (auto simp: Path_def split: prod.splits if_splits dest: split_sep_free)

lemma parent_components: "w \<in> set (tail (parent p)) \<Longrightarrow> w \<in> set (tail p)"
  by (auto simp: parent_def split: if_splits dest: in_set_butlastD)

lemma ROOT_components: "w \<in> set (tail (ROOT e)) \<Longrightarrow> w \<noteq> [] \<and> CHR ''/'' \<notin> set w"
  unfolding ROOT_def by (blast dest: parent_components Path_components)

lemma sep_join_last:
  "ws \<noteq> [] \<Longrightarrow> last ws \<noteq> [] \<Longrightarrow>
     sep_join s ws \<noteq> [] \<and> last (sep_join s ws) = last (last ws)"
  by (induction s ws rule: sep_join.induct) auto

lemma format_ROOT:
  assumes "tail (ROOT e) \<noteq> []"
  shows "format_parsed_parts (ROOT e) \<noteq> [] \<and> last (format_parsed_parts (ROOT e)) \<noteq> CHR ''/''"
proof -
  let ?ws = "tail (ROOT e)"
  have "last ?ws \<in> set ?ws" using assms by simp
  then have l: "last ?ws \<noteq> []" and nl: "CHR ''/'' \<notin> set (last ?ws)"
    using ROOT_components by blast+
  from sep_join_last [OF assms l, of "''/''"]
  have j: "sep_join ''/'' ?ws \<noteq> []" and jl: "last (sep_join ''/'' ?ws) = last (last ?ws)"
    by auto
  have "last (last ?ws) \<in> set (last ?ws)" using l by simp
  with nl have "last (last ?ws) \<noteq> CHR ''/''" by metis
  with j jl show ?thesis by (simp add: format_parsed_parts_def)
qed

lemma truediv_ROOT:
  assumes "k \<noteq> []" "hd k \<noteq> CHR ''/''" "tail (ROOT e) \<noteq> []"
  shows "truediv (ROOT e) (k @ ''.md'') = Path (path_str (ROOT e) @ ''/'' @ k @ ''.md'')"
proof -
  from assms(1,2) have "take 1 (k @ ''.md'') \<noteq> ''/''" by (cases k) auto
  with format_ROOT [OF assms(3)] show ?thesis
    by (simp add: truediv_def posixpath_join_def path_str_def)
qed

section \<open>The claims\<close>

text \<open>
  C1, as amended. Loading an existing readable file with stored content \<open>s\<close> yields the
  header literal followed by \<open>s\<close> read in universal-newlines text mode: every \<^verbatim>\<open>\r\n\<close> and
  every other \<^verbatim>\<open>\r\<close> of \<open>s\<close> has become \<^verbatim>\<open>\n\<close>, and nothing else is changed or trimmed. For
  every \<open>s\<close> without a carriage return, the empty content and multi-line contents with
  \<^verbatim>\<open>\n\<close> endings among them, the result is exactly the header followed by \<open>s\<close>. Loading the same
  file a second time, in the state the first load left, yields the same result.
\<close>

theorem load_prp_content_composed_prompt:
  "map_of (fs e) p = Some (Regular s) \<Longrightarrow>
     fst (load_prp_content e p w) = Inr (META_HEADER @ universal_newlines s) \<and>
     (CHR 0x0D \<notin> set s \<longrightarrow> fst (load_prp_content e p w) = Inr (META_HEADER @ s)) \<and>
     fst (load_prp_content e p (snd (load_prp_content e p w))) = fst (load_prp_content e p w)"
  by (simp add: load_prp_content_def universal_newlines_no_cr)

theorem load_prp_content_composed_prompt_witness:
  "map_of (fs \<lparr>realpath_file = ''/repo/PRPs/scripts/prp_runner.py'',
               fs = [(Path ''notes.md'', Regular ''first line\<newline>\<newline>second paragraph\<newline>'')],
               stdout_faults = [], prog = ''prp_runner.py'', usage = [], help_text = []\<rparr>) (Path ''notes.md'')
     = Some (Regular ''first line\<newline>\<newline>second paragraph\<newline>'') \<and>
   CHR 0x0D \<notin> set ''first line\<newline>\<newline>second paragraph\<newline>'' \<and>
   fst (load_prp_content
          \<lparr>realpath_file = ''/repo/PRPs/scripts/prp_runner.py'',
           fs = [(Path ''notes.md'', Regular ''first line\<newline>\<newline>second paragraph\<newline>'')],
           stdout_faults = [], prog = ''prp_runner.py'', usage = [], help_text = []\<rparr>
          (Path ''notes.md'') \<lparr>stdout = [], stderr = [], fs_calls = []\<rparr>)
     = Inr (META_HEADER @ ''first line\<newline>\<newline>second paragraph\<newline>'')"
  using load_prp_content_composed_prompt
    [of "\<lparr>realpath_file = ''/repo/PRPs/scripts/prp_runner.py'',
           fs = [(Path ''notes.md'', Regular ''first line\<newline>\<newline>second paragraph\<newline>'')],
           stdout_faults = [], prog = ''prp_runner.py'', usage = [], help_text = []\<rparr>"
        "Path ''notes.md''" "''first line\<newline>\<newline>second paragraph\<newline>''"
        "\<lparr>stdout = [], stderr = [], fs_calls = []\<rparr>"]
  by simp

text \<open>
  The claim as it was stated fails on a file with a Windows line ending: the stored content
  \<^verbatim>\<open>a\r\nb\<close> is loaded as the header followed by \<^verbatim>\<open>a\nb\<close>.
\<close>

theorem load_prp_content_crlf_counterexample:
  "fst (load_prp_content
          \<lparr>realpath_file = ''/repo/PRPs/scripts/prp_runner.py'',
           fs = [(Path ''crlf.md'', Regular [CHR ''a'', CHR 0x0D, CHR 0x0A, CHR ''b''])],
           stdout_faults = [], prog = ''prp_runner.py'', usage = [], help_text = []\<rparr>
          (Path ''crlf.md'') \<lparr>stdout = [], stderr = [], fs_calls = []\<rparr>)
     = Inr (META_HEADER @ [CHR ''a'', CHR 0x0A, CHR ''b'']) \<and>
   fst (load_prp_content
          \<lparr>realpath_file = ''/repo/PRPs/scripts/prp_runner.py'',
           fs = [(Path ''crlf.md'', Regular [CHR ''a'', CHR 0x0D, CHR 0x0A, CHR ''b''])],
           stdout_faults = [], prog = ''prp_runner.py'', usage = [], help_text = []\<rparr>
          (Path ''crlf.md'') \<lparr>stdout = [], stderr = [], fs_calls = []\<rparr>)
     \<noteq> Inr (META_HEADER @ [CHR ''a'', CHR 0x0D, CHR 0x0A, CHR ''b''])"
  by (simp add: load_prp_content_def)

text \<open>
  C2, as amended. When both values are supplied and the \<^verbatim>\<open>--prp-path\<close> value is not the empty
  string, the resolver returns the path object made from that value alone, whatever the
  feature key and the project root are.
\<close>

theorem resolve_explicit_path_wins:
  "pp \<noteq> [] \<Longrightarrow> resolve_prp_path e (Some k) (Some pp) = Inr (Path pp)"
  by (simp add: resolve_prp_path_def)

theorem resolve_explicit_path_wins_witness:
  "''docs/plan.md'' \<noteq> [] \<and>
   resolve_prp_path
     \<lparr>realpath_file = ''/repo/PRPs/scripts/prp_runner.py'', fs = [],
      stdout_faults = [], prog = ''prp_runner.py'', usage = [], help_text = []\<rparr>
     (Some ''test'') (Some ''docs/plan.md'') = Inr (Path ''docs/plan.md'')"
  using resolve_explicit_path_wins
    [of "''docs/plan.md''"
        "\<lparr>realpath_file = ''/repo/PRPs/scripts/prp_runner.py'', fs = [],
          stdout_faults = [], prog = ''prp_runner.py'', usage = [], help_text = []\<rparr>" "''test''"]
  by simp

text \<open>
  With the empty string as the \<^verbatim>\<open>--prp-path\<close> value the explicit path does not win: the
  resolver answers with the path derived from the feature key.
\<close>

theorem resolve_empty_path_counterexample:
  "resolve_prp_path
     \<lparr>realpath_file = ''/repo/PRPs/scripts/prp_runner.py'', fs = [],
      stdout_faults = [], prog = ''prp_runner.py'', usage = [], help_text = []\<rparr>
     (Some ''test'') (Some []) = Inr (PurePath ''/'' [''repo'', ''PRPs'', ''test.md'']) \<and>
   Path [] = PurePath [] [] \<and>
   resolve_prp_path
     \<lparr>realpath_file = ''/repo/PRPs/scripts/prp_runner.py'', fs = [],
      stdout_faults = [], prog = ''prp_runner.py'', usage = [], help_text = []\<rparr>
     (Some ''test'') (Some []) \<noteq> Inr (Path [])"
  by code_simp

text \<open>
  C3, as amended. For every non-empty feature key \<open>k\<close>, resolving with only \<^verbatim>\<open>--prp k\<close> yields
  the project root joined with \<open>k\<close> followed by \<^verbatim>\<open>.md\<close>, where the project root is the
  parent of the parent of the script's resolved path; nothing about the key is checked.
  When moreover \<open>k\<close> does not start with a slash and the project root has at least one
  component, this is the same path as the one resolved from \<^verbatim>\<open>--prp-path\<close> with the text of
  the root, a slash, \<open>k\<close> and \<^verbatim>\<open>.md\<close>.
\<close>

theorem resolve_feature_key:
  "k \<noteq> [] \<Longrightarrow>
     resolve_prp_path e (Some k) None =
       Inr (truediv (parent (parent (Path (realpath_file e)))) (k @ ''.md'')) \<and>
     (hd k \<noteq> CHR ''/'' \<and> tail (ROOT e) \<noteq> [] \<longrightarrow>
        resolve_prp_path e (Some k) None =
        resolve_prp_path e None (Some (path_str (ROOT e) @ ''/'' @ k @ ''.md'')))"
proof -
  assume k: "k \<noteq> []"
  then have key: "resolve_prp_path e (Some k) None = Inr (truediv (ROOT e) (k @ ''.md''))"
    by (simp add: resolve_prp_path_def)
  have "resolve_prp_path e None (Some (path_str (ROOT e) @ ''/'' @ k @ ''.md'')) =
          Inr (Path (path_str (ROOT e) @ ''/'' @ k @ ''.md''))"
    by (simp add: resolve_prp_path_def)
  with key k show ?thesis
    by (simp add: truediv_ROOT) (simp add: ROOT_def)
qed

theorem resolve_feature_key_witness:
  "''test'' \<noteq> [] \<and> hd ''test'' \<noteq> CHR ''/'' \<and>
   tail (ROOT \<lparr>realpath_file = ''/repo/PRPs/scripts/prp_runner.py'', fs = [],
               stdout_faults = [], prog = ''prp_runner.py'', usage = [], help_text = []\<rparr>) \<noteq> [] \<and>
   resolve_prp_path
     \<lparr>realpath_file = ''/repo/PRPs/scripts/prp_runner.py'', fs = [],
      stdout_faults = [], prog = ''prp_runner.py'', usage = [], help_text = []\<rparr> (Some ''test'') None =
   resolve_prp_path
     \<lparr>realpath_file = ''/repo/PRPs/scripts/prp_runner.py'', fs = [],
      stdout_faults = [], prog = ''prp_runner.py'', usage = [], help_text = []\<rparr> None
     (Some (path_str (ROOT \<lparr>realpath_file = ''/repo/PRPs/scripts/prp_runner.py'', fs = [],
                           stdout_faults = [], prog = ''prp_runner.py'', usage = [], help_text = []\<rparr>) @ ''/'' @ ''test'' @ ''.md''))"
proof -
  let ?e = "\<lparr>realpath_file = ''/repo/PRPs/scripts/prp_runner.py'', fs = [],
             stdout_faults = [], prog = ''prp_runner.py'', usage = [], help_text = []\<rparr>"
  have k: "''test'' \<noteq> []" and h: "hd ''test'' \<noteq> CHR ''/''" by simp_all
  have r: "tail (ROOT ?e) \<noteq> []" by code_simp
  from resolve_feature_key [OF k, of ?e] h r
  have "resolve_prp_path ?e (Some ''test'') None =
        resolve_prp_path ?e None (Some (path_str (ROOT ?e) @ ''/'' @ ''test'' @ ''.md''))"
    by blast
  with k h r show ?thesis by blast
qed

text \<open>
  Three inputs at which the claim as it was stated fails. An absolute key replaces the
  project root instead of being appended to it; the empty key is refused; and when the
  project root is the file-system root, the text \<^verbatim>\<open>//k.md\<close> parses to a path with the root
  \<^verbatim>\<open>//\<close>, which is not the path \<^verbatim>\<open>/k.md\<close> that the key resolves to.
\<close>

theorem resolve_feature_key_counterexample:
  "resolve_prp_path
     \<lparr>realpath_file = ''/repo/PRPs/scripts/prp_runner.py'', fs = [],
      stdout_faults = [], prog = ''prp_runner.py'', usage = [], help_text = []\<rparr> (Some ''/tmp/x'') None \<noteq>
   resolve_prp_path
     \<lparr>realpath_file = ''/repo/PRPs/scripts/prp_runner.py'', fs = [],
      stdout_faults = [], prog = ''prp_runner.py'', usage = [], help_text = []\<rparr> None
     (Some (path_str (ROOT \<lparr>realpath_file = ''/repo/PRPs/scripts/prp_runner.py'', fs = [],
                           stdout_faults = [], prog = ''prp_runner.py'', usage = [], help_text = []\<rparr>) @ ''/'' @ ''/tmp/x'' @ ''.md'')) \<and>
   resolve_prp_path
     \<lparr>realpath_file = ''/repo/PRPs/scripts/prp_runner.py'', fs = [],
      stdout_faults = [], prog = ''prp_runner.py'', usage = [], help_text = []\<rparr> (Some ''/tmp/x'') None
     = Inr (PurePath ''/'' [''tmp'', ''x.md'']) \<and>
   resolve_prp_path
     \<lparr>realpath_file = ''/repo/PRPs/scripts/prp_runner.py'', fs = [],
      stdout_faults = [], prog = ''prp_runner.py'', usage = [], help_text = []\<rparr> None (Some (''/repo/PRPs'' @ ''/'' @ ''/tmp/x'' @ ''.md''))
     = Inr (PurePath ''/'' [''repo'', ''PRPs'', ''tmp'', ''x.md'']) \<and>
   path_str (ROOT \<lparr>realpath_file = ''/repo/PRPs/scripts/prp_runner.py'', fs = [],
                   stdout_faults = [], prog = ''prp_runner.py'', usage = [], help_text = []\<rparr>) = ''/repo/PRPs'' \<and>
   resolve_prp_path
     \<lparr>realpath_file = ''/repo/PRPs/scripts/prp_runner.py'', fs = [],
      stdout_faults = [], prog = ''prp_runner.py'', usage = [], help_text = []\<rparr> (Some []) None
     = Inl (ValueError ''Must provide either --prp or --prp-path'') \<and>
   path_str (ROOT \<lparr>realpath_file = ''/scripts/prp_runner.py'', fs = [],
                   stdout_faults = [], prog = ''prp_runner.py'', usage = [], help_text = []\<rparr>) = ''/'' \<and>
   resolve_prp_path
     \<lparr>realpath_file = ''/scripts/prp_runner.py'', fs = [],
      stdout_faults = [], prog = ''prp_runner.py'', usage = [], help_text = []\<rparr> (Some ''k'') None
     = Inr (PurePath ''/'' [''k.md'']) \<and>
   resolve_prp_path
     \<lparr>realpath_file = ''/scripts/prp_runner.py'', fs = [],
      stdout_faults = [], prog = ''prp_runner.py'', usage = [], help_text = []\<rparr> None (Some (''/'' @ ''/'' @ ''k'' @ ''.md''))
     = Inr (PurePath ''//'' [''k.md''])"
  by code_simp

text \<open>
  C4, as amended. When nothing exists at the resolved path \<open>p\<close>, that is, when
  \<^verbatim>\<open>exists()\<close> answers false, the run ends with exit status 1, the error stream receives the
  line \<^verbatim>\<open>Error: PRP file not found: \<close> followed by the text of \<open>p\<close>, standard output receives
  nothing, and the file system is asked exactly once, for the existence of \<open>p\<close>: nothing
  is read and nothing is tried again.
\<close>

theorem main_file_not_found:
  "parse_args e argv w = Inr a \<Longrightarrow>
   resolve_prp_path e (prp a) (prp_path a) = Inr p \<Longrightarrow> map_of (fs e) p = None \<Longrightarrow>
     main e argv w =
       (1, w\<lparr>stderr := stderr w @ ''Error: '' @ ''PRP file not found: '' @ path_str p @ ''\<newline>'',
              fs_calls := fs_calls w @ [Call_exists p]\<rparr>)"
  using resolve_truthy [of e "prp a" "prp_path a" p]
  by (auto simp: main_def load_prp_content_def on_exception_def print_stderr_def)

theorem main_file_not_found_witness:
  "parse_args
     \<lparr>realpath_file = ''/repo/PRPs/scripts/prp_runner.py'', fs = [(Path ''/repo/PRPs/test.md'', Regular ''Build a widget.'')], stdout_faults = [], prog = ''prp_runner.py'', usage = [], help_text = []\<rparr>
     [Prp ''missing''] \<lparr>stdout = [], stderr = [], fs_calls = []\<rparr> =
     Inr \<lparr>prp = Some ''missing'', prp_path = None, interactive = False\<rparr> \<and>
   resolve_prp_path
     \<lparr>realpath_file = ''/repo/PRPs/scripts/prp_runner.py'', fs = [(Path ''/repo/PRPs/test.md'', Regular ''Build a widget.'')], stdout_faults = [], prog = ''prp_runner.py'', usage = [], help_text = []\<rparr>
     (Some ''missing'') None = Inr (Path ''/repo/PRPs/missing.md'') \<and>
   map_of [(Path ''/repo/PRPs/test.md'', Regular ''Build a widget.'')]
     (Path ''/repo/PRPs/missing.md'') = None \<and>
   path_str (Path ''/repo/PRPs/missing.md'') = ''/repo/PRPs/missing.md'' \<and>
   main \<lparr>realpath_file = ''/repo/PRPs/scripts/prp_runner.py'', fs = [(Path ''/repo/PRPs/test.md'', Regular ''Build a widget.'')], stdout_faults = [], prog = ''prp_runner.py'', usage = [], help_text = []\<rparr>
        [Prp ''missing''] \<lparr>stdout = [], stderr = [], fs_calls = []\<rparr> =
     (1, \<lparr>stdout = [],
          stderr = ''Error: PRP file not found: /repo/PRPs/missing.md\<newline>'',
          fs_calls = [Call_exists (Path ''/repo/PRPs/missing.md'')]\<rparr>)"
proof -
  let ?e = "\<lparr>realpath_file = ''/repo/PRPs/scripts/prp_runner.py'', fs = [(Path ''/repo/PRPs/test.md'', Regular ''Build a widget.'')], stdout_faults = [], prog = ''prp_runner.py'', usage = [], help_text = []\<rparr>"
  let ?a = "\<lparr>prp = Some ''missing'', prp_path = None, interactive = False\<rparr>"
  let ?w = "\<lparr>stdout = [], stderr = [], fs_calls = []\<rparr>"
  have a: "parse_args ?e [Prp ''missing''] ?w = Inr ?a"
    by (simp add: parse_args_def)
  have r: "resolve_prp_path ?e (Some ''missing'') None = Inr (Path ''/repo/PRPs/missing.md'')"
    by code_simp
  have m: "map_of [(Path ''/repo/PRPs/test.md'', Regular ''Build a widget.'')]
             (Path ''/repo/PRPs/missing.md'') = None"
    by code_simp
  have s: "path_str (Path ''/repo/PRPs/missing.md'') = ''/repo/PRPs/missing.md''"
    by code_simp
  have "main ?e [Prp ''missing''] ?w =
     (1, \<lparr>stdout = [],
          stderr = ''Error: PRP file not found: /repo/PRPs/missing.md\<newline>'',
          fs_calls = [Call_exists (Path ''/repo/PRPs/missing.md'')]\<rparr>)"
    using main_file_not_found [OF a, of "Path ''/repo/PRPs/missing.md''"] r m
    by (simp add: s)
  with a r m s show ?thesis by blast
qed

text \<open>
  The claim as it was stated speaks of every path that does not reference an existing
  file. Two such paths end differently. At a directory \<^verbatim>\<open>exists()\<close> is true and \<^verbatim>\<open>read_text\<close>
  raises; at an over-long name \<^verbatim>\<open>exists()\<close> itself raises. Both runs end with status 1, and
  the error stream carries the message of the library, without the words
  \<^verbatim>\<open>PRP file not found\<close>.
\<close>

theorem main_not_a_file_counterexample:
  "main \<lparr>realpath_file = ''/repo/PRPs/scripts/prp_runner.py'', fs = [(Path ''/repo/PRPs'', ReadFails ''[Errno 21] Is a directory: /repo/PRPs''), (Path ''/long/name'', StatFails ''[Errno 36] File name too long: /long/name'')], stdout_faults = [], prog = ''prp_runner.py'', usage = [], help_text = []\<rparr>
        [Prp_path ''/repo/PRPs''] \<lparr>stdout = [], stderr = [], fs_calls = []\<rparr> =
     (1, \<lparr>stdout = [],
          stderr = ''Error: [Errno 21] Is a directory: /repo/PRPs\<newline>'',
          fs_calls = [Call_exists (Path ''/repo/PRPs''), Call_read_text (Path ''/repo/PRPs'')]\<rparr>) \<and>
   \<not> sublist ''PRP file not found: '' ''Error: [Errno 21] Is a directory: /repo/PRPs\<newline>'' \<and>
   main \<lparr>realpath_file = ''/repo/PRPs/scripts/prp_runner.py'', fs = [(Path ''/repo/PRPs'', ReadFails ''[Errno 21] Is a directory: /repo/PRPs''), (Path ''/long/name'', StatFails ''[Errno 36] File name too long: /long/name'')], stdout_faults = [], prog = ''prp_runner.py'', usage = [], help_text = []\<rparr>
        [Prp_path ''/long/name''] \<lparr>stdout = [], stderr = [], fs_calls = []\<rparr> =
     (1, \<lparr>stdout = [],
          stderr = ''Error: [Errno 36] File name too long: /long/name\<newline>'',
          fs_calls = [Call_exists (Path ''/long/name'')]\<rparr>) \<and>
   \<not> sublist ''PRP file not found: '' ''Error: [Errno 36] File name too long: /long/name\<newline>''"
  by code_simp

text \<open>
  C5, as amended. When the command line has neither a \<^verbatim>\<open>--prp\<close> value nor a \<^verbatim>\<open>--prp-path\<close>
  value and does not ask for help, the process exits with status 2 through the argument
  parser's error: the usage text and one message go to the error stream, standard output is
  left as it was, and no file-system call is made. When the command line is empty or holds
  nothing but \<^verbatim>\<open>--interactive\<close>, the message is the one of \<^verbatim>\<open>main\<close>.
\<close>

theorem usage_error_when_neither_given:
  assumes "Help \<notin> set argv"
      and "set argv \<inter> range Prp = {}" and "set argv \<inter> range Prp_path = {}"
  shows "(\<exists>msg. main e argv w =
            (2, w\<lparr>stderr := stderr w @ usage e @ prog e @ '': error: '' @ msg @ ''\<newline>''\<rparr>)) \<and>
         main e [] w =
            (2, w\<lparr>stderr := stderr w @ usage e @ prog e @
                   '': error: Must provide either --prp or --prp-path\<newline>''\<rparr>) \<and>
         main e [Interactive] w =
            (2, w\<lparr>stderr := stderr w @ usage e @ prog e @
                   '': error: Must provide either --prp or --prp-path\<newline>''\<rparr>)"
proof -
  have "\<exists>msg. main e argv w = parser_error e msg w"
  proof (cases "parse_args e argv w")
    case (Inl x)
    with parse_args_help_free [OF assms(1) Inl] show ?thesis
      by (auto simp: main_def)
  next
    case (Inr a)
    with parse_args_no_values [OF assms(2,3) Inr] show ?thesis
      by (auto simp: main_def)
  qed
  then show ?thesis
    by (auto simp: parser_error_def main_def parse_args_def)
qed

theorem usage_error_when_neither_given_witness:
  "Help \<notin> set [Interactive, Unrecognized ''extra''] \<and>
   set [Interactive, Unrecognized ''extra''] \<inter> range Prp = {} \<and>
   set [Interactive, Unrecognized ''extra''] \<inter> range Prp_path = {} \<and>
   (\<exists>msg. main \<lparr>realpath_file = ''/repo/PRPs/scripts/prp_runner.py'', fs = [(Path ''/repo/PRPs/test.md'', Regular ''Build a widget.'')], stdout_faults = [], prog = ''prp_runner.py'', usage = [], help_text = []\<rparr>
             [Interactive, Unrecognized ''extra''] \<lparr>stdout = [], stderr = [], fs_calls = []\<rparr> =
      (2, \<lparr>stdout = [], stderr = ''prp_runner.py: error: '' @ msg @ ''\<newline>'', fs_calls = []\<rparr>))"
proof -
  have h: "Help \<notin> set [Interactive, Unrecognized ''extra'']"
    and p: "set [Interactive, Unrecognized ''extra''] \<inter> range Prp = {}"
    and q: "set [Interactive, Unrecognized ''extra''] \<inter> range Prp_path = {}"
    by auto
  from usage_error_when_neither_given [OF h p q,
         of "\<lparr>realpath_file = ''/repo/PRPs/scripts/prp_runner.py'', fs = [(Path ''/repo/PRPs/test.md'', Regular ''Build a widget.'')], stdout_faults = [], prog = ''prp_runner.py'', usage = [], help_text = []\<rparr>"
            "\<lparr>stdout = [], stderr = [], fs_calls = []\<rparr>"]
  have "\<exists>msg. main \<lparr>realpath_file = ''/repo/PRPs/scripts/prp_runner.py'', fs = [(Path ''/repo/PRPs/test.md'', Regular ''Build a widget.'')], stdout_faults = [], prog = ''prp_runner.py'', usage = [], help_text = []\<rparr>
             [Interactive, Unrecognized ''extra''] \<lparr>stdout = [], stderr = [], fs_calls = []\<rparr> =
      (2, \<lparr>stdout = [], stderr = ''prp_runner.py: error: '' @ msg @ ''\<newline>'', fs_calls = []\<rparr>)"
    by simp
  with h p q show ?thesis by blast
qed

text \<open>
  The claim as it was stated fails for the help option, which the parser of \<^verbatim>\<open>main\<close> has
  by default: \<^verbatim>\<open>--help\<close> gives neither \<^verbatim>\<open>--prp\<close> nor \<^verbatim>\<open>--prp-path\<close>, and the run prints the help
  text to standard output and ends with status 0.
\<close>

theorem help_exit_counterexample:
  "main \<lparr>realpath_file = ''/repo/PRPs/scripts/prp_runner.py'', fs = [], stdout_faults = [], prog = ''prp_runner.py'', usage = [], help_text = ''usage: prp_runner.py [-h] [--prp PRP] [--prp-path PRP_PATH] [--interactive]\<newline>''\<rparr>
        [Help] \<lparr>stdout = [], stderr = [], fs_calls = []\<rparr> =
     (0, \<lparr>stdout = ''usage: prp_runner.py [-h] [--prp PRP] [--prp-path PRP_PATH] [--interactive]\<newline>'',
          stderr = [], fs_calls = []\<rparr>)"
  by (simp add: main_def parse_args_def)





end
